theory Spec2Isabelle
  imports Main "HOL-Library.Sublist" "HOL-Library.Word"
begin

section \<open>Python strings\<close>

text \<open>
  A Python \<open>str\<close> is a sequence of Unicode code points; it is modelled as a list of
  code points (\<open>nat\<close>), so that \<open>str.strip\<close> sees the same whitespace as Python and the
  diagnostic glyphs of the script are single characters. \<open>py\<close> turns an ASCII literal
  into such a string.
\<close>

type_synonym pystr = "nat list"

definition py :: "string \<Rightarrow> pystr" where
  "py s = map of_char s"

text \<open>\<open>sub in s\<close> on strings: \<open>sub\<close> occurs in \<open>s\<close> as a contiguous block.\<close>

fun py_in :: "'a list \<Rightarrow> 'a list \<Rightarrow> bool" where
  "py_in sub [] = (sub = [])"
| "py_in sub (x # xs) = (prefix sub (x # xs) \<or> py_in sub xs)"

text \<open>
  \<open>s.split(sep)\<close>: the pieces of \<open>s\<close> between the occurrences of \<open>sep\<close>, found from the
  left and not overlapping. \<open>cur\<close> is the piece being collected. (Python raises
  ValueError for an empty separator; the script only splits at its two markers.)
\<close>

fun split_from :: "'a list \<Rightarrow> 'a list \<Rightarrow> 'a list \<Rightarrow> 'a list list" where
  "split_from sep cur [] = [cur]"
| "split_from sep cur (x # xs) =
     (if sep \<noteq> [] \<and> prefix sep (x # xs)
      then cur # split_from sep [] (drop (length sep) (x # xs))
      else split_from sep (cur @ [x]) xs)"

definition split :: "'a list \<Rightarrow> 'a list \<Rightarrow> 'a list list" where
  "split sep s = split_from sep [] s"

text \<open>
  \<open>str.isspace\<close> for one character, as CPython decides it: the code points of
  bidirectional type WS, B or S, or of category Zs.
\<close>

definition isspace :: "nat \<Rightarrow> bool" where
  "isspace c \<longleftrightarrow>
     (9 \<le> c \<and> c \<le> 13) \<or> (28 \<le> c \<and> c \<le> 32) \<or> c = 133 \<or> c = 160 \<or> c = 5760 \<or>
     (8192 \<le> c \<and> c \<le> 8202) \<or> c = 8232 \<or> c = 8233 \<or> c = 8239 \<or> c = 8287 \<or> c = 12288"

definition strip :: "pystr \<Rightarrow> pystr" where
  "strip s = rev (dropWhile isspace (rev (dropWhile isspace s)))"

text \<open>Decimal rendering of integers, as \<open>str(n)\<close> and the f-strings produce it.\<close>

fun str_nat :: "nat \<Rightarrow> pystr" where
  "str_nat n = (if n < 10 then [48 + n] else str_nat (n div 10) @ [48 + n mod 10])"

declare str_nat.simps [simp del]

definition str_int :: "int \<Rightarrow> pystr" where
  "str_int i = (if i < 0 then 45 # str_nat (nat (- i)) else str_nat (nat i))"

section \<open>Python values and exceptions\<close>

text \<open>
  The values \<open>json.loads\<close> and \<open>response.json()\<close> can return, which are also the values
  the script stores in its result rows: None, bool, int, float (its 64 bits), str, list
  and dict (an association list; a key is looked up with \<open>map_of\<close>).
\<close>

datatype pyval =
    VNone
  | VBool bool
  | VInt int
  | VFloat "64 word"
  | VStr pystr
  | VList "pyval list"
  | VDict "(pystr \<times> pyval) list"

record response =
  status_code :: int
  reason :: pystr
  url :: pystr
  body :: pystr
  json :: "pystr + pyval"

text \<open>
  \<open>json\<close> is what \<open>response.json()\<close> does on this response: the decoded body, or the
  message of the JSONDecodeError it raises.

  Every exception carries the text \<open>str(e)\<close> gives; \<open>HTTPError\<close> also carries the
  response it was raised for (\<open>e.response\<close>). \<open>OtherError\<close> stands for the exceptions
  of the libraries that the script never tells apart (connection errors, I/O errors):
  class name and message.
\<close>

datatype exn =
    HTTPError pystr response
  | JSONDecodeError pystr
  | KeyError pystr
  | IndexError pystr
  | TypeError pystr
  | AttributeError pystr
  | OtherError pystr pystr

fun exn_str :: "exn \<Rightarrow> pystr" where
  "exn_str (HTTPError m r) = m"
| "exn_str (JSONDecodeError m) = m"
| "exn_str (KeyError m) = m"
| "exn_str (IndexError m) = m"
| "exn_str (TypeError m) = m"
| "exn_str (AttributeError m) = m"
| "exn_str (OtherError c m) = m"

definition bind_e :: "exn + 'a \<Rightarrow> ('a \<Rightarrow> exn + 'b) \<Rightarrow> exn + 'b" where
  "bind_e m f = (case m of Inl e \<Rightarrow> Inl e | Inr x \<Rightarrow> f x)"

fun type_name :: "pyval \<Rightarrow> pystr" where
  "type_name VNone = py ''NoneType''"
| "type_name (VBool b) = py ''bool''"
| "type_name (VInt i) = py ''int''"
| "type_name (VFloat f) = py ''float''"
| "type_name (VStr s) = py ''str''"
| "type_name (VList xs) = py ''list''"
| "type_name (VDict kvs) = py ''dict''"

definition not_subscriptable :: "pyval \<Rightarrow> exn" where
  "not_subscriptable v = TypeError ([39] @ type_name v @ [39] @ py '' object is not subscriptable'')"

text \<open>
  \<open>v[k]\<close> for one of the script's literal string keys. The message of a KeyError is the
  \<open>repr\<close> of the key, which for these keys is the key between single quotes.
\<close>

fun getitem :: "pyval \<Rightarrow> pystr \<Rightarrow> exn + pyval" where
  "getitem (VDict kvs) k =
     (case map_of kvs k of Some v \<Rightarrow> Inr v | None \<Rightarrow> Inl (KeyError ([39] @ k @ [39])))"
| "getitem (VList xs) k = Inl (TypeError (py ''list indices must be integers or slices, not str''))"
| "getitem (VStr s) k = Inl (TypeError (py ''string indices must be integers, not '' @ [39] @ py ''str'' @ [39]))"
| "getitem v k = Inl (not_subscriptable v)"

text \<open>\<open>v[0]\<close>. A dict decoded from JSON has string keys only, so 0 is never one.\<close>

fun getitem0 :: "pyval \<Rightarrow> exn + pyval" where
  "getitem0 (VList []) = Inl (IndexError (py ''list index out of range''))"
| "getitem0 (VList (x # xs)) = Inr x"
| "getitem0 (VStr []) = Inl (IndexError (py ''string index out of range''))"
| "getitem0 (VStr (c # cs)) = Inr (VStr [c])"
| "getitem0 (VDict kvs) = Inl (KeyError (py ''0''))"
| "getitem0 v = Inl (not_subscriptable v)"

text \<open>\<open>marker in v\<close> for a string \<open>marker\<close>.\<close>

fun contains :: "pystr \<Rightarrow> pyval \<Rightarrow> exn + bool" where
  "contains marker (VStr s) = Inr (py_in marker s)"
| "contains marker (VList xs) = Inr (VStr marker \<in> set xs)"
| "contains marker (VDict kvs) = Inr (marker \<in> fst ` set kvs)"
| "contains marker v =
     Inl (TypeError (py ''argument of type '' @ [39] @ type_name v @ [39] @ py '' is not iterable''))"

text \<open>\<open>v.split(sep)[i]\<close>: only a str has the method, and the index must exist.\<close>

definition index :: "'a list \<Rightarrow> nat \<Rightarrow> exn + 'a" where
  "index xs i = (if i < length xs then Inr (xs ! i) else Inl (IndexError (py ''list index out of range'')))"

fun split_index :: "pyval \<Rightarrow> pystr \<Rightarrow> nat \<Rightarrow> exn + pystr" where
  "split_index (VStr s) sep i = index (split sep s) i"
| "split_index v sep i =
     Inl (AttributeError ([39] @ type_name v @ [39] @ py '' object has no attribute '' @ [39] @ py ''split'' @ [39]))"

section \<open>The surroundings of the script\<close>

text \<open>
  What the script does not decide itself is a parameter of the model:
  \<^item> \<open>post n req\<close> is what \<open>requests.post\<close> does with request \<open>req\<close> (the address, the
    three headers and the body of the call) when \<open>n\<close> requests were sent before it: it
    raises, or it returns a response;
  \<^item> \<open>loads\<close> is \<open>json.loads\<close> on a string: the decoded value, or the message of the
    JSONDecodeError it raises;
  \<^item> \<open>repr\<close> is Python's rendering of floats, lists and dicts;
  \<^item> \<open>open_w path\<close> is the error of opening \<open>path\<close> for writing, if it fails.
\<close>

record request =
  endpoint :: pystr
  content_type :: pystr
  x_api_key :: pyval
  anthropic_version :: pystr
  model :: pystr
  max_tokens :: nat
  role :: pystr
  content :: pystr

record env =
  post :: "nat \<Rightarrow> request \<Rightarrow> exn + response"
  loads :: "pystr \<Rightarrow> pystr + pyval"
  repr :: "pyval \<Rightarrow> pystr"
  open_w :: "pystr \<Rightarrow> exn option"

text \<open>
  A file is the rows \<open>csv.reader\<close> yields from it, and the error that ends the reading
  after them, if there is one. The world is the files (or, for a path, the error of
  opening it for reading), the requests sent so far, the seconds slept and the lines
  printed.
\<close>

datatype csv_file = File (file_rows: "pystr list list") (read_failure: "exn option")

record world =
  files :: "pystr \<Rightarrow> exn + csv_file"
  posted :: "request list"
  slept :: nat
  stdout :: "pystr list"

definition print :: "pystr \<Rightarrow> world \<Rightarrow> world" where
  "print line w = w\<lparr>stdout := stdout w @ [line]\<rparr>"

definition sleep :: "nat \<Rightarrow> world \<Rightarrow> world" where
  "sleep secs w = w\<lparr>slept := slept w + secs\<rparr>"

text \<open>\<open>str(v)\<close>, which is also what an f-string puts for \<open>{v}\<close>.\<close>

fun py_str :: "env \<Rightarrow> pyval \<Rightarrow> pystr" where
  "py_str env (VStr s) = s"
| "py_str env VNone = py ''None''"
| "py_str env (VBool b) = (if b then py ''True'' else py ''False'')"
| "py_str env (VInt i) = str_int i"
| "py_str env v = repr env v"

section \<open>process_text\<close>

definition prompt :: "pystr \<Rightarrow> pystr" where
  \<open>prompt txt =
     py ''Analyze the following text and provide two outputs:'' @ [10] @
     [10] @
     py ''1. Classification: Determine if the text is an "opinion", "fact", or "proposal"'' @ [10] @
     py ''2. Transformed text: '' @ [10] @
     py ''   - If it's a fact or proposal, convert it to the most equivalent opinion'' @ [10] @
     py ''   - Make it the most assertive opinion possible'' @ [10] @
     py ''   - Keep it concise'' @ [10] @
     [10] @
     py ''Text to analyze: "'' @ txt @ py ''"'' @ [10] @
     [10] @
     py ''Respond in JSON format:'' @ [10] @
     py ''{'' @ [10] @
     py ''  "classification": "opinion|fact|proposal",'' @ [10] @
     py ''  "transformed_text": "your transformed text here"'' @ [10] @
     py ''}''\<close>

definition request_for :: "pystr \<Rightarrow> pyval \<Rightarrow> request" where
  "request_for p api_key =
     \<lparr>endpoint = py ''https://api.anthropic.com/v1/messages'',
      content_type = py ''application/json'',
      x_api_key = api_key,
      anthropic_version = py ''2023-06-01'',
      model = py ''claude-sonnet-4-20250514'',
      max_tokens = 1000,
      role = py ''user'',
      content = p\<rparr>"

text \<open>
  \<open>response.raise_for_status()\<close> of the requests library: an HTTPError for a status
  from 400 to 599, with the response attached.
\<close>

definition raise_for_status :: "response \<Rightarrow> exn + unit" where
  "raise_for_status r =
     (if 400 \<le> status_code r \<and> status_code r < 500
      then Inl (HTTPError (str_int (status_code r) @ py '' Client Error: '' @ reason r @
                           py '' for url: '' @ url r) r)
      else if 500 \<le> status_code r \<and> status_code r < 600
      then Inl (HTTPError (str_int (status_code r) @ py '' Server Error: '' @ reason r @
                           py '' for url: '' @ url r) r)
      else Inr ())"

definition response_json :: "response \<Rightarrow> exn + pyval" where
  "response_json r = (case json r of Inl m \<Rightarrow> Inl (JSONDecodeError m) | Inr v \<Rightarrow> Inr v)"

definition fence :: pystr where
  "fence = py ''```''"

definition fence_json :: pystr where
  "fence_json = py ''```json''"

text \<open>Lines 59 to 63: the clean-up of markdown code blocks.\<close>

definition clean_markdown :: "pyval \<Rightarrow> exn + pyval" where
  "clean_markdown response_text =
     bind_e (contains fence_json response_text) (\<lambda>has_json.
       if has_json
       then bind_e (split_index response_text fence_json 1) (\<lambda>piece.
            bind_e (index (split fence piece) 0) (\<lambda>inner. Inr (VStr (strip inner))))
       else bind_e (contains fence response_text) (\<lambda>has_fence.
         if has_fence
         then bind_e (split_index response_text fence 1) (\<lambda>piece.
              bind_e (index (split fence piece) 0) (\<lambda>inner. Inr (VStr (strip inner))))
         else Inr response_text))"

text \<open>\<open>json.loads(v)\<close>: the library decodes a str and rejects the other values here.\<close>

fun json_loads :: "env \<Rightarrow> pyval \<Rightarrow> exn + pyval" where
  "json_loads env (VStr s) =
     (case loads env s of Inl m \<Rightarrow> Inl (JSONDecodeError m) | Inr v \<Rightarrow> Inr v)"
| "json_loads env v =
     Inl (TypeError (py ''the JSON object must be str, bytes or bytearray, not '' @ type_name v))"

text \<open>Lines 53 to 57: from a response that is not status 429 to the text of the reply.\<close>

definition reply_text :: "response \<Rightarrow> exn + pyval" where
  "reply_text r =
     bind_e (raise_for_status r) (\<lambda>_.
     bind_e (response_json r) (\<lambda>data.
     bind_e (getitem data (py ''content'')) (\<lambda>c.
     bind_e (getitem0 c) (\<lambda>c0.
     getitem c0 (py ''text'')))))"

text \<open>Lines 59 to 65: from the text of the reply to the value returned.\<close>

definition decode_text :: "env \<Rightarrow> pyval \<Rightarrow> exn + pyval" where
  "decode_text env response_text =
     bind_e (clean_markdown response_text) (\<lambda>cleaned. json_loads env cleaned)"

definition parse_response :: "env \<Rightarrow> response \<Rightarrow> exn + pyval" where
  "parse_response env r =
     bind_e (reply_text r) (\<lambda>response_text. decode_text env response_text)"

text \<open>
  One pass through the body of \<open>while True\<close>: the \<open>try\<close> block ends with \<open>continue\<close>
  (\<open>Inr None\<close>), with \<open>return\<close> or with an exception, and the handler of HTTPError
  retries on status 429 and raises the exception again otherwise.
\<close>

datatype outcome = Retry | Raise exn | Return pyval

definition try_block :: "env \<Rightarrow> nat \<Rightarrow> request \<Rightarrow> exn + pyval option" where
  "try_block env n req =
     bind_e (post env n req) (\<lambda>r.
       if status_code r = 429 then Inr None
       else bind_e (parse_response env r) (\<lambda>result. Inr (Some result)))"

definition attempt :: "env \<Rightarrow> nat \<Rightarrow> request \<Rightarrow> outcome" where
  "attempt env n req =
     (case try_block env n req of
        Inr None \<Rightarrow> Retry
      | Inr (Some result) \<Rightarrow> Return result
      | Inl (HTTPError m r) \<Rightarrow> if status_code r = 429 then Retry else Raise (HTTPError m r)
      | Inl e \<Rightarrow> Raise e)"

definition rate_limit_line :: "nat \<Rightarrow> pystr" where
  "rate_limit_line retry_count =
     py ''  '' @ [9208] @ py '' Rate limit hit. Waiting 15 seconds... (Retry '' @
     str_nat retry_count @ py '')''"

text \<open>
  The loop. It has no bound, so it is a partial function: \<open>None\<close> is the run that never
  comes back. Both retry branches of the source do the same three things.
\<close>

partial_function (option) request_loop ::
  "env \<Rightarrow> request \<Rightarrow> nat \<Rightarrow> world \<Rightarrow> ((exn + pyval) \<times> world) option" where
  "request_loop env req retry_count w =
     (case attempt env (length (posted w)) req of
        Retry \<Rightarrow>
          request_loop env req (retry_count + 1)
            (sleep 15 (print (rate_limit_line (retry_count + 1)) (w\<lparr>posted := posted w @ [req]\<rparr>)))
      | Raise e \<Rightarrow> Some (Inl e, w\<lparr>posted := posted w @ [req]\<rparr>)
      | Return result \<Rightarrow> Some (Inr result, w\<lparr>posted := posted w @ [req]\<rparr>))"

definition process_text ::
  "env \<Rightarrow> pyval \<Rightarrow> pyval \<Rightarrow> world \<Rightarrow> ((exn + pyval) \<times> world) option" where
  "process_text env txt api_key w =
     request_loop env (request_for (prompt (py_str env txt)) api_key) 0 w"

section \<open>process_csv\<close>

text \<open>
  \<open>csv.DictReader\<close>: the first row of the file gives the field names; every later row
  that is not empty becomes a dict of the field names and its cells, a missing cell
  being None and the later of two equal field names winning. (The cells beyond the field
  names go under the key None, which no string key finds.)
\<close>

definition dict_row :: "pystr list \<Rightarrow> pystr list \<Rightarrow> (pystr \<rightharpoonup> pyval)" where
  "dict_row fieldnames row =
     map_of (rev (zip fieldnames
       (map VStr row @ replicate (length fieldnames - length row) VNone)))"

definition DictReader :: "csv_file \<Rightarrow> (pystr \<rightharpoonup> pyval) list" where
  "DictReader f =
     (case file_rows f of
        [] \<Rightarrow> []
      | fieldnames # rest \<Rightarrow> map (dict_row fieldnames) (filter (\<lambda>row. row \<noteq> []) rest))"

record result_row =
  row_id :: pyval
  original_text :: pyval
  classification :: pyval
  transformed_text :: pyval

text \<open>
  The body of the \<open>try\<close> block of one row, after \<open>process_text\<close> came back: the two
  fields of the result that go into the row.
\<close>

definition result_fields :: "exn + pyval \<Rightarrow> exn + pyval \<times> pyval" where
  "result_fields res =
     bind_e res (\<lambda>result.
     bind_e (getitem result (py ''classification'')) (\<lambda>c.
     bind_e (getitem result (py ''transformed_text'')) (\<lambda>t. Inr (c, t))))"

definition processing_line :: "env \<Rightarrow> pyval \<Rightarrow> pystr" where
  "processing_line env i = py ''Processing ID '' @ py_str env i @ py ''...''"

definition classification_line :: "env \<Rightarrow> pyval \<Rightarrow> pystr" where
  "classification_line env c = py ''  '' @ [10003] @ py '' Classification: '' @ py_str env c"

definition error_line :: "exn \<Rightarrow> pystr" where
  "error_line e = py ''  '' @ [10007] @ py '' Error: '' @ exn_str e"

text \<open>
  The loop over the rows. The two lookups in the row come before the \<open>try\<close>, so their
  KeyError leaves the function; everything from the call of \<open>process_text\<close> on is
  inside it, and any exception there makes the ERROR row.
\<close>

fun process_rows ::
  "env \<Rightarrow> pyval \<Rightarrow> (pystr \<rightharpoonup> pyval) list \<Rightarrow> result_row list \<Rightarrow> world \<Rightarrow>
   ((exn + result_row list) \<times> world) option" where
  "process_rows env api_key [] results w = Some (Inr results, w)"
| "process_rows env api_key (row # rest) results w =
     (case row (py ''text'') of
        None \<Rightarrow> Some (Inl (KeyError ([39] @ py ''text'' @ [39])), w)
      | Some txt \<Rightarrow>
          (case row (py ''id'') of
             None \<Rightarrow> Some (Inl (KeyError ([39] @ py ''id'' @ [39])), w)
           | Some i \<Rightarrow>
               (case process_text env txt api_key (print (processing_line env i) w) of
                  None \<Rightarrow> None
                | Some (res, w1) \<Rightarrow>
                    (case result_fields res of
                       Inr (c, t) \<Rightarrow>
                         process_rows env api_key rest
                           (results @ [\<lparr>row_id = i, original_text = txt,
                                        classification = c, transformed_text = t\<rparr>])
                           (print (classification_line env c) w1)
                     | Inl e \<Rightarrow>
                         process_rows env api_key rest
                           (results @ [\<lparr>row_id = i, original_text = txt,
                                        classification = VStr (py ''ERROR''),
                                        transformed_text = VStr (exn_str e)\<rparr>])
                           (print (error_line e) w1)))))"

text \<open>
  \<open>csv.DictWriter\<close>: the header, then for each result its four values in the order of
  the field names, None written as the empty cell and every other value as its \<open>str\<close>.
\<close>

definition fieldnames :: "pystr list" where
  "fieldnames = [py ''id'', py ''original_text'', py ''classification'', py ''transformed_text'']"

definition cell :: "env \<Rightarrow> pyval \<Rightarrow> pystr" where
  "cell env v = (if v = VNone then [] else py_str env v)"

definition csv_row :: "env \<Rightarrow> result_row \<Rightarrow> pystr list" where
  "csv_row env r =
     [cell env (row_id r), cell env (original_text r),
      cell env (classification r), cell env (transformed_text r)]"

definition complete_line :: "pystr \<Rightarrow> pystr" where
  "complete_line output_file =
     [10, 10003] @ py '' Processing complete! Results saved to '' @ output_file"

definition process_csv ::
  "env \<Rightarrow> pystr \<Rightarrow> pystr \<Rightarrow> pyval \<Rightarrow> world \<Rightarrow> ((exn + unit) \<times> world) option" where
  "process_csv env input_file output_file api_key w =
     (case files w input_file of
        Inl e \<Rightarrow> Some (Inl e, w)
      | Inr f \<Rightarrow>
          (case process_rows env api_key (DictReader f) [] w of
             None \<Rightarrow> None
           | Some (Inl e, w1) \<Rightarrow> Some (Inl e, w1)
           | Some (Inr results, w1) \<Rightarrow>
               (case read_failure f of
                  Some e \<Rightarrow> Some (Inl e, w1)
                | None \<Rightarrow>
                    (case open_w env output_file of
                       Some e \<Rightarrow> Some (Inl e, w1)
                     | None \<Rightarrow>
                         Some (Inr (),
                           print (complete_line output_file)
                             (w1\<lparr>files := (files w1)
                                 (output_file := Inr (File (fieldnames # map (csv_row env) results) None))\<rparr>))))))"

section \<open>Notions the properties are stated with\<close>

text \<open>
  The text before the first occurrence of a marker (all of the string, if there is
  none) and the text after it.
\<close>

fun before_first :: "'a list \<Rightarrow> 'a list \<Rightarrow> 'a list" where
  "before_first sep [] = []"
| "before_first sep (x # xs) = (if prefix sep (x # xs) then [] else x # before_first sep xs)"

fun after_first :: "'a list \<Rightarrow> 'a list \<Rightarrow> 'a list" where
  "after_first sep [] = []"
| "after_first sep (x # xs) =
     (if prefix sep (x # xs) then drop (length sep) (x # xs) else after_first sep xs)"

text \<open>
  The extraction policy in the words of the specification: with a \<open>```json\<close> marker,
  the text between the first such marker and the next \<open>```\<close> marker; else with a
  \<open>```\<close> marker, the text between the first pair of them; else the payload. Where the
  closing marker is missing, the text runs to the end of the payload.
\<close>

definition specified_extraction :: "pystr \<Rightarrow> pystr" where
  "specified_extraction s =
     (if py_in fence_json s then before_first fence (after_first fence_json s)
      else if py_in fence s then before_first fence (after_first fence s)
      else s)"

definition four_ticks :: pystr where
  "four_ticks = py ''````''"

text \<open>
  The service answers request \<open>req\<close>, sent after \<open>n\<close> others, with the rate-limit status:
  a response with status 429, or an HTTPError raised for such a response.
\<close>

definition rate_limited :: "env \<Rightarrow> nat \<Rightarrow> request \<Rightarrow> bool" where
  "rate_limited env n req =
     (case post env n req of
        Inr r \<Rightarrow> status_code r = 429
      | Inl (HTTPError m r) \<Rightarrow> status_code r = 429
      | Inl e \<Rightarrow> False)"


fun http_response :: "exn \<Rightarrow> response option" where
  "http_response (HTTPError m r) = Some r"
| "http_response e = None"


text \<open>
  What the caller of the loop gets for the outcome that ends it (\<open>Retry\<close> ends no loop;
  its value here is never used).
\<close>

fun result_of :: "outcome \<Rightarrow> exn + pyval" where
  "result_of (Raise e) = Inl e"
| "result_of (Return v) = Inr v"
| "result_of Retry = Inl (OtherError [] [])"

text \<open>The result row and the diagnostic line of one input row, from what \<open>process_text\<close> gave.\<close>

definition error_row :: "pyval \<Rightarrow> pyval \<Rightarrow> exn \<Rightarrow> result_row" where
  "error_row i t e =
     \<lparr>row_id = i, original_text = t, classification = VStr (py ''ERROR''),
      transformed_text = VStr (exn_str e)\<rparr>"

definition row_result :: "pyval \<Rightarrow> pyval \<Rightarrow> exn + pyval \<Rightarrow> result_row" where
  "row_result i t res =
     (case result_fields res of
        Inr (c, t') \<Rightarrow> \<lparr>row_id = i, original_text = t, classification = c, transformed_text = t'\<rparr>
      | Inl e \<Rightarrow> error_row i t e)"



section \<open>A JSON decoder and a scripted service for the examples\<close>

text \<open>
  The theorems hold for every \<open>loads\<close>. The examples need one: \<open>decode\<close> reads the JSON
  texts without fractions, exponents, NaN, Infinity and unicode escapes as \<open>json.loads\<close> does (objects keep
  the last value of a repeated key), and rejects the others. \<open>n\<close> bounds the nesting.
\<close>

definition json_ws :: "nat \<Rightarrow> bool" where
  "json_ws c \<longleftrightarrow> c = 32 \<or> c = 9 \<or> c = 10 \<or> c = 13"

definition skip_ws :: "pystr \<Rightarrow> pystr" where
  "skip_ws s = dropWhile json_ws s"

definition unescape :: "nat \<Rightarrow> nat option" where
  "unescape c =
     (if c = 34 \<or> c = 92 \<or> c = 47 then Some c
      else if c = 98 then Some 8 else if c = 102 then Some 12 else if c = 110 then Some 10
      else if c = 114 then Some 13 else if c = 116 then Some 9 else None)"

fun scan_string :: "pystr \<Rightarrow> pystr \<Rightarrow> (pystr \<times> pystr) option" where
  "scan_string acc [] = None"
| "scan_string acc (c # cs) =
     (if c = 34 then Some (acc, cs)
      else if c = 92 then
        (case cs of
           [] \<Rightarrow> None
         | e # cs' \<Rightarrow> (case unescape e of None \<Rightarrow> None | Some x \<Rightarrow> scan_string (acc @ [x]) cs'))
      else if c < 32 then None
      else scan_string (acc @ [c]) cs)"

definition is_digit :: "nat \<Rightarrow> bool" where
  "is_digit c \<longleftrightarrow> 48 \<le> c \<and> c \<le> 57"

definition digits_value :: "pystr \<Rightarrow> int" where
  "digits_value ds = foldl (\<lambda>n d. 10 * n + int (d - 48)) 0 ds"

definition scan_int :: "pystr \<Rightarrow> (pyval \<times> pystr) option" where
  "scan_int s =
     (let neg = (s \<noteq> [] \<and> hd s = 45);
          digits = (if neg then tl s else s);
          ds = (if digits \<noteq> [] \<and> hd digits = 48 then [48] else takeWhile is_digit digits);
          rest = drop (length ds) digits
      in if ds = [] \<or> (rest \<noteq> [] \<and> hd rest \<in> {46, 69, 101}) then None
         else Some (VInt (if neg then - digits_value ds else digits_value ds), rest))"

fun dict_set :: "(pystr \<times> pyval) list \<Rightarrow> pystr \<Rightarrow> pyval \<Rightarrow> (pystr \<times> pyval) list" where
  "dict_set [] k v = [(k, v)]"
| "dict_set ((k', v') # kvs) k v = (if k' = k then (k, v) # kvs else (k', v') # dict_set kvs k v)"

fun scan_value :: "nat \<Rightarrow> pystr \<Rightarrow> (pyval \<times> pystr) option"
  and scan_items :: "nat \<Rightarrow> pyval list \<Rightarrow> pystr \<Rightarrow> (pyval \<times> pystr) option"
  and scan_pairs :: "nat \<Rightarrow> (pystr \<times> pyval) list \<Rightarrow> pystr \<Rightarrow> (pyval \<times> pystr) option" where
  "scan_value 0 s = None"
| "scan_value (Suc n) s =
     (case s of
        [] \<Rightarrow> None
      | c # cs \<Rightarrow>
          if c = 34 then map_option (\<lambda>(x, r). (VStr x, r)) (scan_string [] cs)
          else if c = 123 then
            (case skip_ws cs of
               [] \<Rightarrow> None
             | d # ds \<Rightarrow> if d = 125 then Some (VDict [], ds) else scan_pairs n [] (d # ds))
          else if c = 91 then
            (case skip_ws cs of
               [] \<Rightarrow> None
             | d # ds \<Rightarrow> if d = 93 then Some (VList [], ds) else scan_items n [] (d # ds))
          else if prefix (py ''null'') s then Some (VNone, drop 4 s)
          else if prefix (py ''true'') s then Some (VBool True, drop 4 s)
          else if prefix (py ''false'') s then Some (VBool False, drop 5 s)
          else scan_int s)"
| "scan_items 0 acc s = None"
| "scan_items (Suc n) acc s =
     (case scan_value n s of
        None \<Rightarrow> None
      | Some (v, r) \<Rightarrow>
          (case skip_ws r of
             [] \<Rightarrow> None
           | d # ds \<Rightarrow>
               if d = 44 then scan_items n (acc @ [v]) (skip_ws ds)
               else if d = 93 then Some (VList (acc @ [v]), ds)
               else None))"
| "scan_pairs 0 acc s = None"
| "scan_pairs (Suc n) acc s =
     (case s of
        [] \<Rightarrow> None
      | q # s1 \<Rightarrow>
          if q \<noteq> 34 then None
          else
            (case scan_string [] s1 of
               None \<Rightarrow> None
             | Some (k, r) \<Rightarrow>
                 (case skip_ws r of
                    [] \<Rightarrow> None
                  | c # r1 \<Rightarrow>
                      if c \<noteq> 58 then None
                      else
                        (case scan_value n (skip_ws r1) of
                           None \<Rightarrow> None
                         | Some (v, r2) \<Rightarrow>
                             (case skip_ws r2 of
                                [] \<Rightarrow> None
                              | d # ds \<Rightarrow>
                                  if d = 44 then scan_pairs n (dict_set acc k v) (skip_ws ds)
                                  else if d = 125 then Some (VDict (dict_set acc k v), ds)
                                  else None)))))"

definition decode :: "pystr \<Rightarrow> pystr + pyval" where
  "decode s =
     (case scan_value (2 * length s + 2) (skip_ws s) of
        Some (v, r) \<Rightarrow> if skip_ws r = [] then Inr v else Inl (py ''Extra data'')
      | None \<Rightarrow> Inl (py ''Expecting value''))"

text \<open>
  The body the service sends for the reply text \<open>t\<close>, and the responses of the examples:
  \<open>reply t\<close> is the success with that text, \<open>refusal\<close> a response with an error status.
\<close>

fun escape :: "pystr \<Rightarrow> pystr" where
  "escape [] = []"
| "escape (c # cs) =
     (if c = 34 \<or> c = 92 then [92, c] else if c = 10 then [92, 110] else [c]) @ escape cs"

definition envelope :: "pystr \<Rightarrow> pystr" where
  \<open>envelope t = py ''{"content":[{"type":"text","text":"'' @ escape t @ py ''"}]}''\<close>

definition api_url :: pystr where
  "api_url = py ''https://api.anthropic.com/v1/messages''"

definition reply :: "pystr \<Rightarrow> exn + response" where
  "reply t =
     Inr \<lparr>status_code = 200, reason = py ''OK'', url = api_url,
          body = envelope t, json = decode (envelope t)\<rparr>"

definition error_body :: pystr where
  \<open>error_body = py ''{"type":"error"}''\<close>

definition refusal :: "int \<Rightarrow> pystr \<Rightarrow> exn + response" where
  "refusal status why =
     Inr \<lparr>status_code = status, reason = why, url = api_url,
          body = error_body, json = decode error_body\<rparr>"


text \<open>
  A service that answers the requests with the entries of a list, in turn, and with
  \<open>d\<close> once the list is used up; and the rest of the surroundings of the examples.
\<close>

definition script :: "(exn + response) list \<Rightarrow> (exn + response) \<Rightarrow> nat \<Rightarrow> request \<Rightarrow> exn + response" where
  "script rs d n req = (if n < length rs then rs ! n else d)"

definition service :: "(nat \<Rightarrow> request \<Rightarrow> exn + response) \<Rightarrow> env" where
  "service p =
     \<lparr>post = p, loads = decode,
      repr = (\<lambda>v. py ''<'' @ type_name v @ py ''>''),
      open_w = (\<lambda>path. None)\<rparr>"

definition no_file :: "pystr \<Rightarrow> exn + csv_file" where
  "no_file path =
     Inl (OtherError (py ''FileNotFoundError'')
           (py ''[Errno 2] No such file or directory: '' @ [39] @ path @ [39]))"

definition start :: "exn + csv_file \<Rightarrow> world" where
  "start f =
     \<lparr>files = (\<lambda>path. if path = py ''input.csv'' then f else no_file path),
      posted = [], slept = 0, stdout = []\<rparr>"

definition sky_table :: csv_file where
  "sky_table = File [[py ''id'', py ''text''], [py ''1'', py ''The sky is blue.'']] None"

definition sky_reply :: pystr where
  \<open>sky_reply = py ''{"classification":"fact","transformed_text":"The sky is unmistakably blue."}''\<close>

definition sky_request :: request where
  "sky_request = request_for (prompt (py ''The sky is blue.'')) (VStr (py ''key''))"

definition sky_result :: pyval where
  "sky_result = VDict [(py ''classification'', VStr (py ''fact'')),
                       (py ''transformed_text'', VStr (py ''The sky is unmistakably blue.''))]"


definition server_fault :: response where
  "server_fault =
     \<lparr>status_code = 500, reason = py ''Internal Server Error'', url = api_url,
      body = error_body, json = decode error_body\<rparr>"

definition server_failure :: exn where
  "server_failure =
     HTTPError (py ''500 Server Error: Internal Server Error for url: https://api.anthropic.com/v1/messages'')
       server_fault"

definition sky_service :: env where
  "sky_service = service (script [] (reply sky_reply))"









definition fenced_example :: pystr where
  \<open>fenced_example = py ''```json'' @ [10] @ py ''{"a": 1}'' @ [10] @ py ''```''\<close>

definition feed_example :: pystr where
  "feed_example = py ''```json'' @ [12] @ py ''{}'' @ py ''```''"

definition ticks_example :: pystr where
  \<open>ticks_example = py ''"```1```"''\<close>

section \<open>Lemmas\<close>

subsection \<open>Splitting at the markers\<close>

lemma py_in_sublist: "py_in sub s \<longleftrightarrow> sublist sub s"
  by (induction s) (auto simp: sublist_Cons_right)

lemma before_first_none: "\<not> py_in sep s \<Longrightarrow> before_first sep s = s"
  by (induction s) auto

lemma split_from_eq:
  "sep \<noteq> [] \<Longrightarrow> split_from sep cur s =
     (if py_in sep s then (cur @ before_first sep s) # split_from sep [] (after_first sep s)
      else [cur @ s])"
  by (induction s arbitrary: cur) auto

lemma split_0: "sep \<noteq> [] \<Longrightarrow> index (split sep s) 0 = Inr (before_first sep s)"
  by (simp add: split_def index_def split_from_eq[of sep "[]" s] before_first_none)

lemma split_from_hd: "sep \<noteq> [] \<Longrightarrow> \<exists>rest. split_from sep cur s = (cur @ before_first sep s) # rest"
  by (simp add: split_from_eq[of sep cur s] before_first_none)

lemma split_1:
  assumes "sep \<noteq> []" "py_in sep s"
  shows "index (split sep s) 1 = Inr (before_first sep (after_first sep s))"
proof -
  obtain rest where "split_from sep [] (after_first sep s) = before_first sep (after_first sep s) # rest"
    using split_from_hd[OF assms(1), of "[]" "after_first sep s"] by auto
  then show ?thesis using assms
    by (simp add: split_def index_def split_from_eq[of sep "[]" s])
qed

lemma before_first_prefix: "prefix (before_first sep s) s"
  by (induction s) auto

lemma not_in_before_first: "sep \<noteq> [] \<Longrightarrow> \<not> py_in sep (before_first sep s)"
proof (induction s)
  case Nil then show ?case by simp
next
  case (Cons x xs)
  show ?case
  proof (cases "prefix sep (x # xs)")
    case True then show ?thesis using Cons.prems by simp
  next
    case False
    have "\<not> prefix sep (x # before_first sep xs)"
      using False before_first_prefix[of sep xs] by (meson Cons_prefix_Cons prefix_order.trans)
    then show ?thesis using False Cons by simp
  qed
qed

lemma before_first_idem: "sep \<noteq> [] \<Longrightarrow> before_first sep (before_first sep s) = before_first sep s"
  by (simp add: before_first_none not_in_before_first)

lemma fence_ne: "fence \<noteq> []" "fence_json \<noteq> []"
  by (simp_all add: fence_def fence_json_def py_def)

lemma fence_prefix: "prefix fence fence_json"
  by (simp add: fence_def fence_json_def py_def)

lemma py_in_prefix_mono: "prefix a b \<Longrightarrow> py_in b s \<Longrightarrow> py_in a s"
  unfolding py_in_sublist by (meson prefix_imp_sublist sublist_order.order.trans)

lemma clean_markdown_str:
  "clean_markdown (VStr s) = Inr (VStr
     (if py_in fence_json s
      then strip (before_first fence (before_first fence_json (after_first fence_json s)))
      else if py_in fence s then strip (before_first fence (after_first fence s))
      else s))"
proof -
  have a: "py_in fence_json s \<Longrightarrow> py_in fence s"
    using py_in_prefix_mono[OF fence_prefix] .
  show ?thesis
    using a by (auto simp: clean_markdown_def bind_e_def split_1[simplified] split_0 fence_ne before_first_idem)
qed

lemma fence_eq: "fence = [96,96,96]" "fence_json = [96,96,96,106,115,111,110]"
  by (simp_all add: fence_def fence_json_def py_def)

lemma four_eq: "four_ticks = [96,96,96,96]" by (simp add: four_ticks_def py_def)

lemma bf_step:
  assumes "prefix fence (x # xs)" "\<not> py_in four_ticks (x # xs)"
  shows "prefix fence (x # before_first fence_json xs)"
proof -
  obtain r where xs: "x = 96" "xs = 96 # 96 # r"
    using assms(1) by (auto simp: fence_eq prefix_def)
  have "r = [] \<or> hd r \<noteq> 96"
    using assms(2) by (cases r) (auto simp: xs four_eq)
  then show ?thesis
    by (cases r) (auto simp: xs fence_eq)
qed

lemma bf_compose:
  "\<not> py_in four_ticks u \<Longrightarrow> before_first fence (before_first fence_json u) = before_first fence u"
proof (induction u)
  case Nil then show ?case by simp
next
  case (Cons x xs)
  show ?case
  proof (cases "prefix fence_json (x # xs)")
    case True
    then have "prefix fence (x # xs)" using fence_prefix by (meson prefix_order.trans)
    with True show ?thesis by simp
  next
    case False
    have ih: "before_first fence (before_first fence_json xs) = before_first fence xs"
      using Cons by simp
    have "prefix fence (x # before_first fence_json xs) \<longleftrightarrow> prefix fence (x # xs)"
      using bf_step[OF _ Cons.prems] before_first_prefix[of fence_json xs]
      by (meson Cons_prefix_Cons prefix_order.trans)
    then show ?thesis using False ih by simp
  qed
qed

lemma after_first_prefix: "sep \<noteq> [] \<Longrightarrow> after_first sep (sep @ q) = q"
proof (cases "sep @ q")
  case Nil then show ?thesis by simp
next
  case (Cons a list)
  have "prefix sep (a # list)" by (metis Cons prefixI)
  moreover have "drop (length sep) (a # list) = q" by (metis Cons append_eq_conv_conj)
  ultimately show ?thesis using Cons by (metis after_first.simps(2))
qed

lemma before_first_at_end:
  "sep \<noteq> [] \<Longrightarrow> \<not> sublist sep (p @ butlast sep) \<Longrightarrow> before_first sep (p @ sep) = p"
proof (induction p)
  case Nil
  then show ?case by (cases sep) auto
next
  case (Cons a p)
  have "\<not> prefix sep (a # p @ sep)"
  proof
    assume pre: "prefix sep (a # p @ sep)"
    have "length sep \<le> length (a # p @ butlast sep)" by simp
    moreover have "a # p @ sep = (a # p @ butlast sep) @ [last sep]"
      using Cons.prems(1) by simp
    ultimately have "prefix sep (a # p @ butlast sep)"
      using pre by (metis prefix_length_prefix prefixI)
    then show False using Cons.prems(2) prefix_imp_sublist[of sep "a # p @ butlast sep"] by simp
  qed
  moreover have "\<not> sublist sep (p @ butlast sep)"
    using Cons.prems(2) by (auto simp: sublist_Cons_right)
  ultimately show ?case using Cons by simp
qed

lemma no_fence_at_end:
  assumes "\<not> py_in fence inner" "inner \<noteq> [] \<longrightarrow> last inner \<noteq> 96"
  shows "\<not> sublist fence (inner @ butlast fence)"
proof
  assume "sublist fence (inner @ butlast fence)"
  then consider "sublist fence inner" | "sublist fence (butlast fence)"
    | xs1 xs2 where "fence = xs1 @ xs2" "suffix xs1 inner" "prefix xs2 (butlast fence)"
    by (auto simp: sublist_append)
  then show False
  proof cases
    case 1 then show ?thesis using assms(1) by (simp add: py_in_sublist)
  next
    case 2 then show ?thesis by (auto simp: fence_eq dest: sublist_length_le)
  next
    case 3
    have "length xs2 \<le> 2" using 3(3) by (auto simp: fence_eq dest: prefix_length_le)
    then have "xs1 \<noteq> []" using 3(1) by (auto simp: fence_eq)
    moreover have "set xs1 \<subseteq> {96}" using 3(1) by (metis fence_eq(1) Un_upper1 set_append set_simps(2) empty_set insert_absorb2 list.simps(15))
    ultimately have "last xs1 = 96" using last_in_set by blast
    moreover have "inner \<noteq> []" "last inner = last xs1"
      using 3(2) \<open>xs1 \<noteq> []\<close> by (auto simp: suffix_def)
    ultimately show False using assms(2) by simp
  qed
qed

lemma no_fence_json:
  assumes "\<not> py_in fence inner" "inner \<noteq> [] \<longrightarrow> last inner \<noteq> 96"
  shows "\<not> py_in fence_json (inner @ fence)"
proof
  assume "py_in fence_json (inner @ fence)"
  then have "sublist fence_json (inner @ fence)" by (simp add: py_in_sublist)
  then consider "sublist fence_json inner" | "sublist fence_json fence"
    | xs1 xs2 where "fence_json = xs1 @ xs2" "suffix xs1 inner" "prefix xs2 fence" "xs2 \<noteq> []"
    by (auto simp: sublist_append) (metis append_Nil2 suffix_imp_sublist)
  then show False
  proof cases
    case 1
    then have "sublist fence inner"
      using fence_prefix by (meson prefix_imp_sublist sublist_order.order.trans)
    then show ?thesis using assms(1) by (simp add: py_in_sublist)
  next
    case 2 then show ?thesis by (auto simp: fence_eq dest: sublist_length_le)
  next
    case 3
    have "last xs2 = 110" using 3(1,4) by (metis fence_eq(2) last_appendR last.simps list.distinct(1))
    moreover have "set xs2 \<subseteq> {96}" using set_mono_prefix[OF 3(3)] by (auto simp: fence_eq)
    ultimately show False using last_in_set[OF 3(4)] by auto
  qed
qed

lemma clean_raw: "\<not> py_in fence inner \<Longrightarrow> clean_markdown (VStr inner) = Inr (VStr inner)"
  using py_in_prefix_mono[OF fence_prefix, of inner] by (auto simp: clean_markdown_str)

lemma clean_json_fenced:
  assumes "\<not> py_in fence inner" "inner \<noteq> [] \<longrightarrow> last inner \<noteq> 96"
  shows "clean_markdown (VStr (fence_json @ inner @ fence)) = Inr (VStr (strip inner))"
proof -
  have "py_in fence_json (fence_json @ inner @ fence)" by (simp add: py_in_sublist)
  moreover have "after_first fence_json (fence_json @ inner @ fence) = inner @ fence"
    by (simp add: after_first_prefix fence_ne)
  moreover have "before_first fence_json (inner @ fence) = inner @ fence"
    using no_fence_json[OF assms] by (simp add: before_first_none)
  moreover have "before_first fence (inner @ fence) = inner"
    using no_fence_at_end[OF assms] by (simp add: before_first_at_end fence_ne)
  ultimately show ?thesis by (simp add: clean_markdown_str)
qed

lemma clean_bare_fenced:
  assumes "\<not> py_in fence inner" "inner \<noteq> [] \<longrightarrow> last inner \<noteq> 96"
    "inner \<noteq> [] \<longrightarrow> hd inner \<noteq> 96 \<and> hd inner \<noteq> 106"
  shows "clean_markdown (VStr (fence @ inner @ fence)) = Inr (VStr (strip inner))"
proof -
  have "py_in fence (fence @ inner @ fence)" by (simp add: py_in_sublist)
  moreover have "\<not> py_in fence_json (fence @ inner @ fence)"
    using no_fence_json[OF assms(1,2)] assms(3)
    by (cases inner) (auto simp: fence_eq)
  moreover have "after_first fence (fence @ inner @ fence) = inner @ fence"
    by (simp add: after_first_prefix fence_ne)
  moreover have "before_first fence (inner @ fence) = inner"
    using no_fence_at_end[OF assms(1,2)] by (simp add: before_first_at_end fence_ne)
  ultimately show ?thesis by (simp add: clean_markdown_str)
qed

lemma after_first_sublist: "sublist (after_first sep s) s"
proof (induction s)
  case Nil
  then show ?case by simp
next
  case (Cons x xs)
  show ?case
  proof (cases "prefix sep (x # xs)")
    case True
    have "suffix (drop (length sep) (x # xs)) (x # xs)" by (rule suffix_drop)
    then show ?thesis using True by simp
  next
    case False
    then show ?thesis using Cons by (simp add: sublist_Cons_right)
  qed
qed

lemma specified_natural:
  assumes "\<not> py_in four_ticks s"
  shows "(if py_in fence_json s
          then strip (before_first fence (before_first fence_json (after_first fence_json s)))
          else if py_in fence s then strip (before_first fence (after_first fence s))
          else s) =
         (if py_in fence s then strip (specified_extraction s) else s)"
proof (cases "py_in fence_json s")
  case True
  have f: "py_in fence s" using py_in_prefix_mono[OF fence_prefix True] .
  have "\<not> py_in four_ticks (after_first fence_json s)"
    using assms after_first_sublist[of fence_json s] unfolding py_in_sublist
    by (meson sublist_order.order.trans)
  then show ?thesis using True f by (simp add: specified_extraction_def bf_compose)
next
  case False
  then show ?thesis by (simp add: specified_extraction_def)
qed

lemma decode_text_str:
  "clean_markdown (VStr s) = Inr (VStr p) \<Longrightarrow>
   decode_text env (VStr s) = (case loads env p of Inl m \<Rightarrow> Inl (JSONDecodeError m) | Inr v \<Rightarrow> Inr v)"
  by (simp add: decode_text_def bind_e_def)

subsection \<open>The retry loop\<close>

lemma getitem_no_http: "getitem v k = Inl e \<Longrightarrow> http_response e = None"
  by (cases v) (auto simp: not_subscriptable_def split: option.splits)

lemma getitem0_no_http: "getitem0 v = Inl e \<Longrightarrow> http_response e = None"
  by (induction v rule: getitem0.induct) (auto simp: not_subscriptable_def)

lemma contains_no_http: "contains m v = Inl e \<Longrightarrow> http_response e = None"
  by (cases v) auto

lemma index_no_http: "index xs i = Inl e \<Longrightarrow> http_response e = None"
  by (auto simp: index_def split: if_splits)

lemma split_index_no_http: "split_index v sep i = Inl e \<Longrightarrow> http_response e = None"
  by (cases v) (auto dest: index_no_http)

lemma json_loads_no_http: "json_loads env v = Inl e \<Longrightarrow> http_response e = None"
  by (cases v) (auto split: sum.splits)

lemma clean_markdown_no_http: "clean_markdown v = Inl e \<Longrightarrow> http_response e = None"
  by (auto simp: clean_markdown_def bind_e_def split: sum.splits if_splits
      dest: contains_no_http index_no_http split_index_no_http)

lemma decode_text_no_http: "decode_text env v = Inl e \<Longrightarrow> http_response e = None"
  by (auto simp: decode_text_def bind_e_def split: sum.splits
      dest: clean_markdown_no_http json_loads_no_http)

lemma raise_for_status_http: "raise_for_status r = Inl e \<Longrightarrow> http_response e = Some r"
  by (auto simp: raise_for_status_def split: if_splits)

lemma reply_text_http: "reply_text r = Inl e \<Longrightarrow> http_response e = None \<or> http_response e = Some r"
  by (auto simp: reply_text_def bind_e_def response_json_def split: sum.splits
      dest: raise_for_status_http getitem_no_http getitem0_no_http)

lemma parse_response_http:
  "parse_response env r = Inl e \<Longrightarrow> http_response e = None \<or> http_response e = Some r"
  by (auto simp: parse_response_def bind_e_def split: sum.splits
      dest: reply_text_http decode_text_no_http)

lemma attempt_Retry_iff: "attempt env n req = Retry \<longleftrightarrow> rate_limited env n req"
proof (cases "post env n req")
  case (Inl e)
  then show ?thesis
    by (cases e) (auto simp: attempt_def try_block_def bind_e_def rate_limited_def)
next
  case (Inr r)
  show ?thesis
  proof (cases "status_code r = 429")
    case True
    then show ?thesis using Inr
      by (simp add: attempt_def try_block_def bind_e_def rate_limited_def)
  next
    case False
    have "attempt env n req \<noteq> Retry"
    proof (cases "parse_response env r")
      case (Inl e)
      with parse_response_http[OF Inl] False \<open>post env n req = Inr r\<close> show ?thesis
        by (cases e) (auto simp: attempt_def try_block_def bind_e_def)
    next
      case (Inr v)
      with False \<open>post env n req = Inr r\<close> show ?thesis
        by (simp add: attempt_def try_block_def bind_e_def)
    qed
    then show ?thesis using Inr False by (simp add: rate_limited_def)
  qed
qed





lemma loop_done:
  "\<not> rate_limited env (length (posted w)) req \<Longrightarrow>
   request_loop env req rc w =
     Some (result_of (attempt env (length (posted w)) req), w\<lparr>posted := posted w @ [req]\<rparr>)"
  by (subst request_loop.simps) (auto simp: attempt_Retry_iff[symmetric] split: outcome.splits)










lemma loop_error_status:
  assumes "post env (length (posted w)) req = Inr r"
    and "400 \<le> status_code r" "status_code r < 600" "status_code r \<noteq> 429"
  shows "\<exists>m. raise_for_status r = Inl (HTTPError m r) \<and>
             request_loop env req rc w = Some (Inl (HTTPError m r), w\<lparr>posted := posted w @ [req]\<rparr>)"
proof -
  have "\<exists>m. raise_for_status r = Inl (HTTPError m r)"
    using assms(2,3) by (cases "status_code r < 500") (simp_all add: raise_for_status_def)
  then obtain m where m: "raise_for_status r = Inl (HTTPError m r)" ..
  have "attempt env (length (posted w)) req = Raise (HTTPError m r)"
    using assms(1,4) m
    by (simp add: attempt_def try_block_def parse_response_def reply_text_def bind_e_def)
  moreover have "\<not> rate_limited env (length (posted w)) req"
    using assms(1,4) by (simp add: rate_limited_def)
  ultimately show ?thesis using loop_done[of env w req rc] m by simp
qed






subsection \<open>The loop over the rows\<close>


lemma row_result_sel [simp]:
  "row_id (row_result i tx res) = i" "original_text (row_result i tx res) = tx"
  by (auto simp: row_result_def error_row_def split: sum.splits)







lemma dict_row_None: "dict_row h r k = None \<longleftrightarrow> k \<notin> set h"
proof -
  let ?vals = "map VStr r @ replicate (length h - length r) VNone"
  have "length h \<le> length ?vals" by simp
  then have "map fst (zip h ?vals) = h"
    by (metis map_fst_zip_take min.absorb2 take_all order_refl min.commute)
  then have "fst ` set (rev (zip h ?vals)) = set h"
    by (metis set_map set_rev)
  then show ?thesis
    by (simp add: dict_row_def map_of_eq_None_iff del: set_rev)
qed

lemma process_rows_no_column:
  assumes "row (py ''text'') = None \<or> row (py ''id'') = None"
  shows "process_rows env key (row # rest) results w =
     Some (Inl (KeyError ([39] @ (if row (py ''text'') = None then py ''text'' else py ''id'') @ [39])), w)"
  using assms by (auto split: option.splits)




subsection \<open>The examples\<close>

lemma sky_request_eq:
  "request_for (prompt (py_str env (VStr (py ''The sky is blue.'')))) (VStr (py ''key'')) = sky_request"
  by (simp add: sky_request_def)

lemma server_fault_raises: "raise_for_status server_fault = Inl server_failure"
  by (simp add: raise_for_status_def server_fault_def server_failure_def api_url_def str_int_def
      str_nat.simps py_def)

lemma refusal_server_fault: "refusal 500 (py ''Internal Server Error'') = Inr server_fault"
  by (simp add: refusal_def server_fault_def)




















lemma fenced_example_clean: \<open>clean_markdown (VStr fenced_example) = Inr (VStr (py ''{"a": 1}''))\<close>
  by (simp add: clean_markdown_str fenced_example_def fence_eq py_def strip_def isspace_def)

lemma fenced_example_spec: \<open>specified_extraction fenced_example = [10] @ py ''{"a": 1}'' @ [10]\<close>
  by (simp add: specified_extraction_def fenced_example_def fence_eq py_def)

lemma fenced_example_ticks: "\<not> py_in four_ticks fenced_example" "py_in fence fenced_example"
  by (simp_all add: fenced_example_def fence_eq four_eq py_def)

lemma feed_example_clean: "clean_markdown (VStr feed_example) = Inr (VStr (py ''{}''))"
  by (simp add: clean_markdown_str feed_example_def fence_eq py_def strip_def isspace_def)

lemma feed_example_spec: "specified_extraction feed_example = [12] @ py ''{}''"
  by (simp add: specified_extraction_def feed_example_def fence_eq py_def)

lemma feed_example_loads:
  "loads sky_service (py ''{}'') = Inr (VDict [])" "isl (loads sky_service ([12] @ py ''{}''))"
  unfolding sky_service_def by code_simp+

lemma ticks_example_eq: "ticks_example = [34,96,96,96,49,96,96,96,34]"
  by (simp add: ticks_example_def py_def)

lemma ticks_example_clean:
  "clean_markdown (VStr ticks_example) = Inr (VStr (py ''1''))"
  "clean_markdown (VStr (fence_json @ ticks_example @ fence)) = Inr (VStr [34])"
  "clean_markdown (VStr (fence @ ticks_example @ fence)) = Inr (VStr [34])"
  by (simp_all add: clean_markdown_str ticks_example_eq fence_eq py_def strip_def isspace_def)

lemma ticks_example_loads:
  "loads sky_service ticks_example = Inr (VStr (py ''```1```''))"
  "loads sky_service (py ''1'') = Inr (VInt 1)"
  "isl (loads sky_service [34])"
  unfolding sky_service_def ticks_example_def by code_simp+

lemma sky_reply_shape:
  "\<not> py_in fence sky_reply" "sky_reply \<noteq> []" "hd sky_reply = 123" "last sky_reply = 125"
  "strip sky_reply = sky_reply"
  by (simp_all add: sky_reply_def fence_eq py_def strip_def isspace_def)

lemma sky_reply_loads: "loads sky_service sky_reply = Inr sky_result"
  unfolding sky_service_def by code_simp








section \<open>The claims\<close>





text \<open>
  C3 says that the extracted substring is the text between the markers. The code strips
  that text: for a reply of three lines, the fences around \<open>{"a": 1}\<close>, it extracts
  \<open>{"a": 1}\<close> and not the text between the markers, which begins and ends with a newline.
  The difference shows in the result when the whitespace is not JSON's: with a form feed
  after the opening marker the code decodes \<open>{}\<close>, and the text between the markers is
  not JSON.
\<close>

theorem extraction_strips_counterexample:
  \<open>clean_markdown (VStr (py ''```json'' @ [10] @ py ''{"a": 1}'' @ [10] @ py ''```'')) =
     Inr (VStr (py ''{"a": 1}'')) \<and>
   specified_extraction (py ''```json'' @ [10] @ py ''{"a": 1}'' @ [10] @ py ''```'') =
     [10] @ py ''{"a": 1}'' @ [10] \<and>
   py ''{"a": 1}'' \<noteq> [10] @ py ''{"a": 1}'' @ [10] \<and>
   decode_text sky_service (VStr (py ''```json'' @ [12] @ py ''{}'' @ py ''```'')) = Inr (VDict []) \<and>
   specified_extraction (py ''```json'' @ [12] @ py ''{}'' @ py ''```'') = [12] @ py ''{}'' \<and>
   isl (loads sky_service ([12] @ py ''{}''))\<close>
proof -
  have \<open>py ''{"a": 1}'' \<noteq> [10] @ py ''{"a": 1}'' @ [10]\<close> by (simp add: py_def)
  moreover have "decode_text sky_service (VStr feed_example) = Inr (VDict [])"
    by (simp add: decode_text_def bind_e_def feed_example_clean feed_example_loads)
  ultimately show ?thesis
    using fenced_example_clean fenced_example_spec feed_example_spec feed_example_loads(2)
    unfolding fenced_example_def feed_example_def by blast
qed

text \<open>
  C3, as the code has it. The cleaned text of a string payload \<open>s\<close> is: with a \<open>```json\<close>
  marker, the text after the first such marker up to the next \<open>```json\<close> marker, cut at
  its first \<open>```\<close> marker, stripped; else with a \<open>```\<close> marker, the text between the first
  pair of them, stripped; else \<open>s\<close>. A marker that is missing ends the text at the end of
  the payload. When the payload has no run of four backticks, this is the extraction of
  the specification, stripped if a marker is present. The cleaned text is what
  \<open>json.loads\<close> is given.
\<close>

theorem extraction_policy:
  "\<exists>p. clean_markdown (VStr s) = Inr (VStr p) \<and>
       p = (if py_in fence_json s
            then strip (before_first fence (before_first fence_json (after_first fence_json s)))
            else if py_in fence s then strip (before_first fence (after_first fence s))
            else s) \<and>
       (\<not> py_in four_ticks s \<longrightarrow>
          p = (if py_in fence s then strip (specified_extraction s) else s)) \<and>
       decode_text env (VStr s) =
         (case loads env p of Inl m \<Rightarrow> Inl (JSONDecodeError m) | Inr v \<Rightarrow> Inr v)"
  using specified_natural[of s]
  by (simp add: clean_markdown_str decode_text_def bind_e_def del: before_first.simps after_first.simps)

text \<open>The reply of three lines: no four backticks, and \<open>{"a": 1}\<close> is decoded.\<close>

theorem extraction_policy_witness:
  \<open>\<not> py_in four_ticks (py ''```json'' @ [10] @ py ''{"a": 1}'' @ [10] @ py ''```'') \<and>
   py_in fence (py ''```json'' @ [10] @ py ''{"a": 1}'' @ [10] @ py ''```'') \<and>
   clean_markdown (VStr (py ''```json'' @ [10] @ py ''{"a": 1}'' @ [10] @ py ''```'')) =
     Inr (VStr (strip (specified_extraction (py ''```json'' @ [10] @ py ''{"a": 1}'' @ [10] @ py ''```'')))) \<and>
   strip (specified_extraction (py ''```json'' @ [10] @ py ''{"a": 1}'' @ [10] @ py ''```'')) =
     py ''{"a": 1}'' \<and>
   decode_text sky_service (VStr (py ''```json'' @ [10] @ py ''{"a": 1}'' @ [10] @ py ''```'')) =
     Inr (VDict [(py ''a'', VInt 1)])\<close>
proof -
  have l: \<open>loads sky_service (py ''{"a": 1}'') = Inr (VDict [(py ''a'', VInt 1)])\<close>
    unfolding sky_service_def by code_simp
  have st: \<open>strip (specified_extraction fenced_example) = py ''{"a": 1}''\<close>
    by (simp add: fenced_example_spec py_def strip_def isspace_def)
  from extraction_policy[of fenced_example sky_service] fenced_example_ticks
  have "clean_markdown (VStr fenced_example) = Inr (VStr (strip (specified_extraction fenced_example)))"
    and "decode_text sky_service (VStr fenced_example) =
          (case loads sky_service (strip (specified_extraction fenced_example)) of
             Inl m \<Rightarrow> Inl (JSONDecodeError m) | Inr v \<Rightarrow> Inr v)"
    by auto
  then show ?thesis
    using fenced_example_ticks st l unfolding fenced_example_def by simp
qed

text \<open>
  C4 says that the raw content, the content in \<open>```json\<close> fences and the content in bare
  fences decode to the same value. The content \<open>"```1```"\<close> is JSON, the string
  \<open>```1```\<close>: raw, the code takes it for a fenced block and decodes the number 1; in
  fences of either kind it cuts the content at its first marker and fails.
\<close>

theorem wrapping_forms_counterexample:
  \<open>loads sky_service (py ''"```1```"'') = Inr (VStr (py ''```1```'')) \<and>
   decode_text sky_service (VStr (py ''"```1```"'')) = Inr (VInt 1) \<and>
   isl (decode_text sky_service (VStr (fence_json @ py ''"```1```"'' @ fence))) \<and>
   isl (decode_text sky_service (VStr (fence @ py ''"```1```"'' @ fence)))\<close>
proof -
  have "decode_text sky_service (VStr ticks_example) = Inr (VInt 1)"
    using decode_text_str[OF ticks_example_clean(1), of sky_service]
    by (simp add: ticks_example_loads)
  moreover have "isl (decode_text sky_service (VStr (fence_json @ ticks_example @ fence)))"
    using decode_text_str[OF ticks_example_clean(2), of sky_service] ticks_example_loads(3)
    by (cases "loads sky_service [34]") simp_all
  moreover have "isl (decode_text sky_service (VStr (fence @ ticks_example @ fence)))"
    using decode_text_str[OF ticks_example_clean(3), of sky_service] ticks_example_loads(3)
    by (cases "loads sky_service [34]") simp_all
  ultimately show ?thesis
    using ticks_example_loads(1) unfolding ticks_example_def by blast
qed

text \<open>
  C4, as the code has it. For a content without a \<open>```\<close> marker, which neither begins
  with a backtick or \<open>j\<close> nor ends with a backtick, and which \<open>json.loads\<close> reads the same
  with and without the whitespace around it (every JSON text is such, unless it has the
  marker inside): the content in \<open>```json\<close> fences and the content in bare fences decode
  to what the raw content decodes to, which is what \<open>json.loads\<close> makes of it.
\<close>

theorem wrapping_forms_agree:
  assumes "\<not> py_in fence inner"
    and "inner \<noteq> [] \<longrightarrow> hd inner \<noteq> 96 \<and> hd inner \<noteq> 106 \<and> last inner \<noteq> 96"
    and "loads env (strip inner) = loads env inner"
  shows "decode_text env (VStr (fence_json @ inner @ fence)) = decode_text env (VStr inner) \<and>
         decode_text env (VStr (fence @ inner @ fence)) = decode_text env (VStr inner) \<and>
         decode_text env (VStr inner) =
           (case loads env inner of Inl m \<Rightarrow> Inl (JSONDecodeError m) | Inr v \<Rightarrow> Inr v)"
proof -
  have l: "inner \<noteq> [] \<longrightarrow> last inner \<noteq> 96" and h: "inner \<noteq> [] \<longrightarrow> hd inner \<noteq> 96 \<and> hd inner \<noteq> 106"
    using assms(2) by auto
  show ?thesis
    using decode_text_str[OF clean_raw[OF assms(1)], of env]
      decode_text_str[OF clean_json_fenced[OF assms(1) l], of env]
      decode_text_str[OF clean_bare_fenced[OF assms(1) l h], of env]
    by (simp add: assms(3))
qed

text \<open>The reply of the example, raw and in the two kinds of fences.\<close>

theorem wrapping_forms_agree_witness:
  "\<not> py_in fence sky_reply \<and> sky_reply \<noteq> [] \<and> hd sky_reply = 123 \<and> last sky_reply = 125 \<and>
   loads sky_service (strip sky_reply) = loads sky_service sky_reply \<and>
   decode_text sky_service (VStr (fence_json @ sky_reply @ fence)) = Inr sky_result \<and>
   decode_text sky_service (VStr (fence @ sky_reply @ fence)) = Inr sky_result \<and>
   decode_text sky_service (VStr sky_reply) = Inr sky_result"
proof -
  have a: "sky_reply \<noteq> [] \<longrightarrow> hd sky_reply \<noteq> 96 \<and> hd sky_reply \<noteq> 106 \<and> last sky_reply \<noteq> 96"
    by (simp add: sky_reply_shape)
  have b: "loads sky_service (strip sky_reply) = loads sky_service sky_reply"
    by (simp add: sky_reply_shape)
  from wrapping_forms_agree[OF sky_reply_shape(1) a b] show ?thesis
    using sky_reply_shape b by (simp add: sky_reply_loads)
qed








text \<open>
  C8. When the service answers with a status from 400 to 599 other than 429 (the
  statuses \<open>raise_for_status\<close> takes for failures), \<open>process_text\<close> raises the HTTPError
  of \<open>raise_for_status\<close>, which carries the response and so its status and body. It has
  sent the request once: it does not retry, sleep, print or return a value.
\<close>

theorem unsuccessful_status_raises:
  assumes "post env (length (posted w)) (request_for (prompt (py_str env tx)) key) = Inr r"
    and "400 \<le> status_code r" "status_code r < 600" "status_code r \<noteq> 429"
  shows "\<exists>m. raise_for_status r = Inl (HTTPError m r) \<and>
             process_text env tx key w =
               Some (Inl (HTTPError m r),
                     w\<lparr>posted := posted w @ [request_for (prompt (py_str env tx)) key]\<rparr>)"
  unfolding process_text_def using assms by (rule loop_error_status)

text \<open>A service that answers 500 Internal Server Error.\<close>

theorem unsuccessful_status_raises_witness:
  "post (service (script [] (refusal 500 (py ''Internal Server Error'')))) 0 sky_request = Inr server_fault \<and>
   (400::int) \<le> 500 \<and> (500::int) < 600 \<and> (500::int) \<noteq> 429 \<and>
   process_text (service (script [] (refusal 500 (py ''Internal Server Error''))))
       (VStr (py ''The sky is blue.'')) (VStr (py ''key'')) (start (Inr sky_table)) =
     Some (Inl server_failure, (start (Inr sky_table))\<lparr>posted := [sky_request]\<rparr>)"
proof -
  let ?E = "service (script [] (refusal 500 (py ''Internal Server Error'')))"
  have p: "post ?E (length (posted (start (Inr sky_table))))
            (request_for (prompt (py_str ?E (VStr (py ''The sky is blue.'')))) (VStr (py ''key''))) = Inr server_fault"
    by (simp add: service_def script_def refusal_server_fault)
  have s: "status_code server_fault = 500" by (simp add: server_fault_def)
  from unsuccessful_status_raises[OF p] obtain m where
    m: "raise_for_status server_fault = Inl (HTTPError m server_fault)" and
    run: "process_text ?E (VStr (py ''The sky is blue.'')) (VStr (py ''key'')) (start (Inr sky_table)) =
      Some (Inl (HTTPError m server_fault),
            (start (Inr sky_table))\<lparr>posted := posted (start (Inr sky_table)) @
              [request_for (prompt (py_str ?E (VStr (py ''The sky is blue.'')))) (VStr (py ''key''))]\<rparr>)"
    using s by auto
  have e: "HTTPError m server_fault = server_failure"
    using m by (simp add: server_fault_raises)
  have q: "posted (start (Inr sky_table)) = []" by (simp add: start_def)
  have "post ?E 0 sky_request = Inr server_fault"
    using p unfolding q sky_request_eq by simp
  moreover have "process_text ?E (VStr (py ''The sky is blue.'')) (VStr (py ''key'')) (start (Inr sky_table)) =
     Some (Inl server_failure, (start (Inr sky_table))\<lparr>posted := [sky_request]\<rparr>)"
    using run unfolding e q sky_request_eq by simp
  ultimately show ?thesis by simp
qed



text \<open>
  C10. When the header of the input table lacks the column \<open>text\<close> or the column \<open>id\<close>
  (so that every row lacks it) and the table has a row, the lookup in the first row
  raises KeyError before the \<open>try\<close>: \<open>process_csv\<close> ends with that exception and the
  world as it was: no output file is written, no ERROR row is made, nothing is printed
  and no request is sent.
\<close>

theorem missing_column_aborts:
  assumes "files w input_file = Inr (File (h # data) fail)"
    and "\<exists>r\<in>set data. r \<noteq> []"
    and "py ''text'' \<notin> set h \<or> py ''id'' \<notin> set h"
  shows "process_csv env input_file output_file key w =
     Some (Inl (KeyError ([39] @ (if py ''text'' \<notin> set h then py ''text'' else py ''id'') @ [39])), w)"
proof -
  obtain r rs where rs: "filter (\<lambda>row. row \<noteq> []) data = r # rs"
    using assms(2) by (cases "filter (\<lambda>row. row \<noteq> []) data") (auto simp: filter_empty_conv)
  have d: "DictReader (File (h # data) fail) = dict_row h r # map (dict_row h) rs"
    by (simp add: DictReader_def rs)
  have n: "dict_row h r (py ''text'') = None \<or> dict_row h r (py ''id'') = None"
    using assms(3) by (simp add: dict_row_None)
  show ?thesis
    using process_rows_no_column[OF n, of env key "map (dict_row h) rs" "[]" w] assms(1)
    by (simp add: process_csv_def d dict_row_None)
qed

text \<open>A table with the columns \<open>id\<close> and \<open>body\<close>.\<close>

theorem missing_column_aborts_witness:
  "files (start (Inr (File [[py ''id'', py ''body''], [py ''1'', py ''The sky is blue.'']] None)))
     (py ''input.csv'') =
     Inr (File ([py ''id'', py ''body''] # [[py ''1'', py ''The sky is blue.'']]) None) \<and>
   [py ''1'', py ''The sky is blue.''] \<noteq> [] \<and>
   py ''text'' \<notin> set [py ''id'', py ''body''] \<and>
   process_csv (service (script [] (reply sky_reply))) (py ''input.csv'') (py ''output.csv'')
     (VStr (py ''key''))
     (start (Inr (File [[py ''id'', py ''body''], [py ''1'', py ''The sky is blue.'']] None))) =
   Some (Inl (KeyError ([39] @ py ''text'' @ [39])),
         start (Inr (File [[py ''id'', py ''body''], [py ''1'', py ''The sky is blue.'']] None)))"
proof -
  let ?f = "File [[py ''id'', py ''body''], [py ''1'', py ''The sky is blue.'']] None"
  have a: "files (start (Inr ?f)) (py ''input.csv'') =
     Inr (File ([py ''id'', py ''body''] # [[py ''1'', py ''The sky is blue.'']]) None)"
    by (simp add: start_def)
  have b: "\<exists>r\<in>set [[py ''1'', py ''The sky is blue.'']]. r \<noteq> []" by (simp add: py_def)
  have c: "py ''text'' \<notin> set [py ''id'', py ''body'']" by (simp add: py_def)
  have c': "py ''text'' \<notin> set [py ''id'', py ''body''] \<or> py ''id'' \<notin> set [py ''id'', py ''body'']"
    using c by simp
  from missing_column_aborts[OF a b c', of "service (script [] (reply sky_reply))" "py ''output.csv''" "VStr (py ''key'')"]
  show ?thesis using a b c by (simp add: py_def)
qed

end
